theory Spec2Isabelle
  imports Main "HOL-Library.Monad_Syntax"
begin

section \<open>Values and declared types\<close>

text \<open>
  The source, \<^verbatim>\<open>src/lib/types.d.ts\<close>, is a TypeScript declaration file: it has no
  function bodies, only interfaces, enums and type aliases.  Its meaning is the set of
  run-time values each declared type admits.  The embedding therefore has three layers:
  run-time values (\<open>val\<close>), type expressions (\<open>ts_type\<close>) with the declarations of the
  file transcribed as data, and the structural conformance check \<open>conforms\<close> that says
  which values a type admits.  The order itself is also given as a record, for the
  converters between an order and its JSON form, which the source does not contain.

  A JavaScript \<^verbatim>\<open>number\<close> is carried with an integer payload: no declaration of the
  file looks at the payload of a number, only at the fact that the value is one.
  Instances of classes declared outside the file (\<^verbatim>\<open>BigNumber\<close>, \<^verbatim>\<open>Date\<close>,
  \<^verbatim>\<open>Map\<close>) have a constructor of their own.  An object is the list of its own
  properties; a key that is absent is different from a key bound to \<^verbatim>\<open>undefined\<close>.
  \<^verbatim>\<open>Error\<close> is an interface of TypeScript's library and is read structurally, like
  the interfaces of the file.  \<open>TVoid\<close> is \<^verbatim>\<open>void\<close>, and \<open>TAny\<close> stands for \<^verbatim>\<open>any\<close>
  and \<^verbatim>\<open>unknown\<close>, which admit every value; a type parameter can be instantiated with
  them.
\<close>

datatype val =
    VUndefined
  | VNull
  | VBool bool
  | VNum int
  | VStr string
  | VBig int
  | VDate int
  | VMap "(val \<times> val) list"
  | VArr "val list"
  | VObj "(string \<times> val) list"

datatype ts_type =
    TString
  | TNumber
  | TBoolean
  | TNull
  | TUndefined
  | TBigNumber
  | TDate
  | TObject
  | TVoid
  | TAny
  | TEnum string
  | TArray ts_type
  | TTuple "ts_type list"
  | TUnion "ts_type list"
  | TMap ts_type ts_type
  | TRef string

text \<open>
  A property of an interface: \<^verbatim>\<open>name: T\<close> is required, \<^verbatim>\<open>name?: T\<close> is optional.
\<close>

record property =
  pname :: string
  optional :: bool
  ptype :: ts_type

abbreviation req :: "string \<Rightarrow> ts_type \<Rightarrow> property" where
  "req n t \<equiv> \<lparr>pname = n, optional = False, ptype = t\<rparr>"

abbreviation opt :: "string \<Rightarrow> ts_type \<Rightarrow> property" where
  "opt n t \<equiv> \<lparr>pname = n, optional = True, ptype = t\<rparr>"

text \<open>
  An interface either lists properties or has a string index signature
  \<^verbatim>\<open>[key: string]: T\<close>.
\<close>

datatype decl = Fields "property list" | IndexSignature ts_type

subsection \<open>Type operators\<close>

text \<open>
  The utility types the file uses, on property lists.  \<^verbatim>\<open>Omit\<close> is defined the way
  TypeScript's library defines it:
  \<^verbatim>\<open>type Omit<T, K> = Pick<T, Exclude<keyof T, K>>\<close>.
  An interface that \<^verbatim>\<open>extends\<close> others inherits their properties; a property it
  declares itself replaces an inherited one of the same name.
\<close>

definition keyof :: "property list \<Rightarrow> string list" where
  "keyof ps = map pname ps"

definition Exclude :: "string list \<Rightarrow> string list \<Rightarrow> string list" where
  "Exclude ks us = filter (\<lambda>k. k \<notin> set us) ks"

definition Pick :: "property list \<Rightarrow> string list \<Rightarrow> property list" where
  "Pick ps ks = filter (\<lambda>p. pname p \<in> set ks) ps"

definition Omit :: "property list \<Rightarrow> string list \<Rightarrow> property list" where
  "Omit ps ks = Pick ps (Exclude (keyof ps) ks)"

definition Partial :: "property list \<Rightarrow> property list" where
  "Partial ps = map (\<lambda>p. p\<lparr>optional := True\<rparr>) ps"

definition extends :: "property list list \<Rightarrow> property list \<Rightarrow> property list" where
  "extends bases own = filter (\<lambda>p. pname p \<notin> set (keyof own)) (concat bases) @ own"

section \<open>The declarations of types.d.ts\<close>

text \<open>
  Enums are closed sets of values.  The four numeric enums select the exchange's code
  path; the string enums name schemas, contract kinds and event kinds.
\<close>

definition enums :: "(string \<times> val list) list" where
  "enums = [
     (''OrderSide'', [VNum 0, VNum 1]),
     (''FeeMethod'', [VNum 0, VNum 1]),
     (''SaleKind'', [VNum 0, VNum 1]),
     (''HowToCall'', [VNum 0, VNum 1, VNum 2, VNum 3]),
     (''AssetContractType'', [VStr ''fungible'', VStr ''semi-fungible'', VStr ''non-fungible'', VStr ''unknown'']),
     (''WyvernSchemaName'', [VStr ''ERC20'', VStr ''ERC721'', VStr ''ERC721v3'', VStr ''ERC1155'', VStr ''Enjin'', VStr ''ENSShortNameAuction'']),
     (''TokenStandardVersion'', [VStr ''unsupported'', VStr ''locked'', VStr ''1155-1.0'', VStr ''1.0'', VStr ''2.0'', VStr ''3.0'']),
     (''AuctionType'', [VStr ''dutch'', VStr ''english'', VStr ''min_price'']),
     (''AssetEventType'', [VStr ''created'', VStr ''successful'', VStr ''cancelled'', VStr ''offer_entered'', VStr ''bid_entered'', VStr ''bid_withdraw'', VStr ''transfer'', VStr ''approve'', VStr ''composition_created'', VStr ''custom'', VStr ''payout''])]"

definition enum_members :: "string \<Rightarrow> val list" where
  "enum_members n = (case map_of enums n of None \<Rightarrow> [] | Some vs \<Rightarrow> vs)"

text \<open>
  The interfaces, in the order of the file (\<^verbatim>\<open>OpenSeaFees\<close> is moved up, before the
  interfaces that extend it).  The interfaces of the event payload, the configuration,
  the query parameters and the ABI annotations are not referenced by any declaration
  below and are not transcribed.
\<close>

text \<open>Lines 157 to 160 of the source.\<close>

definition Fees :: "property list" where
  "Fees = [
     req ''openseaFees'' (TMap TString TNumber),
     req ''sellerFees'' (TMap TString TNumber)]"

text \<open>Lines 161 to 164 of the source.\<close>

definition WyvernNFTAsset :: "property list" where
  "WyvernNFTAsset = [
     req ''id'' TString,
     req ''address'' TString]"

text \<open>Lines 165 to 169 of the source.\<close>

definition WyvernFTAsset :: "property list" where
  "WyvernFTAsset = [
     opt ''id'' TString,
     req ''address'' TString,
     req ''quantity'' TString]"

text \<open>Line 170 of the source.\<close>

definition WyvernAsset :: ts_type where
  "WyvernAsset = TUnion [TRef ''WyvernNFTAsset'', TRef ''WyvernFTAsset'']"

text \<open>Lines 171 to 177 of the source.\<close>

definition WyvernBundle :: "property list" where
  "WyvernBundle = [
     req ''assets'' (TArray WyvernAsset),
     req ''schemas'' (TArray (TEnum ''WyvernSchemaName'')),
     opt ''name'' TString,
     opt ''description'' TString,
     opt ''external_link'' TString]"

text \<open>Lines 178 to 190 of the source.\<close>

definition WyvernAtomicMatchParameters :: ts_type where
  "WyvernAtomicMatchParameters = TTuple [
     TArray TString,
     TArray TBigNumber,
     TArray (TUnion [TNumber, TBigNumber]),
     TString,
     TString,
     TString,
     TString,
     TString,
     TString,
     TArray (TUnion [TNumber, TBigNumber]),
     TArray TString]"

text \<open>Lines 194 to 199 of the source.\<close>

definition OpenSeaAccount :: "property list" where
  "OpenSeaAccount = [
     req ''address'' TString,
     req ''config'' TString,
     req ''profileImgUrl'' TString,
     req ''user'' (TUnion [TRef ''OpenSeaUser'', TNull])]"

text \<open>Lines 200 to 202 of the source.\<close>

definition OpenSeaUser :: "property list" where
  "OpenSeaUser = [
     opt ''username'' TString]"

text \<open>Lines 206 to 213 of the source.\<close>

definition Asset :: "property list" where
  "Asset = [
     req ''tokenId'' (TUnion [TString, TNull]),
     req ''tokenAddress'' TString,
     opt ''schemaName'' (TEnum ''WyvernSchemaName''),
     opt ''version'' (TEnum ''TokenStandardVersion''),
     opt ''name'' TString,
     opt ''decimals'' TNumber]"

text \<open>Lines 452 to 457 of the source.\<close>

definition OpenSeaFees :: "property list" where
  "OpenSeaFees = [
     req ''openseaSellerFeeBasisPoints'' TNumber,
     req ''openseaBuyerFeeBasisPoints'' TNumber,
     req ''devSellerFeeBasisPoints'' TNumber,
     req ''devBuyerFeeBasisPoints'' TNumber]"

text \<open>Lines 217 to 231 of the source.\<close>

definition OpenSeaAssetContract :: "property list" where
  "OpenSeaAssetContract = extends [OpenSeaFees] [
     req ''name'' TString,
     req ''address'' TString,
     req ''type'' (TEnum ''AssetContractType''),
     req ''schemaName'' (TEnum ''WyvernSchemaName''),
     req ''sellerFeeBasisPoints'' TNumber,
     req ''buyerFeeBasisPoints'' TNumber,
     req ''description'' TString,
     req ''tokenSymbol'' TString,
     req ''imageUrl'' TString,
     opt ''stats'' TObject,
     opt ''traits'' (TArray TObject),
     opt ''externalLink'' TString,
     opt ''wikiLink'' TString]"

text \<open>Lines 232 to 235 of the source.\<close>

definition NumericalTraitStats :: "property list" where
  "NumericalTraitStats = [
     req ''min'' TNumber,
     req ''max'' TNumber]"

text \<open>Lines 236 to 238 of the source.\<close>

definition StringTraitStats :: decl where
  "StringTraitStats = IndexSignature (TNumber)"

text \<open>Lines 242 to 304 of the source.\<close>

definition OpenSeaCollectionStats :: "property list" where
  "OpenSeaCollectionStats = [
     req ''one_minute_volume'' TNumber,
     req ''one_minute_change'' TNumber,
     req ''one_minute_sales'' TNumber,
     req ''one_minute_sales_change'' TNumber,
     req ''one_minute_average_price'' TNumber,
     req ''one_minute_difference'' TNumber,
     req ''five_minute_volume'' TNumber,
     req ''five_minute_change'' TNumber,
     req ''five_minute_sales'' TNumber,
     req ''five_minute_sales_change'' TNumber,
     req ''five_minute_average_price'' TNumber,
     req ''five_minute_difference'' TNumber,
     req ''fifteen_minute_volume'' TNumber,
     req ''fifteen_minute_change'' TNumber,
     req ''fifteen_minute_sales'' TNumber,
     req ''fifteen_minute_sales_change'' TNumber,
     req ''fifteen_minute_average_price'' TNumber,
     req ''fifteen_minute_difference'' TNumber,
     req ''thirty_minute_volume'' TNumber,
     req ''thirty_minute_change'' TNumber,
     req ''thirty_minute_sales'' TNumber,
     req ''thirty_minute_sales_change'' TNumber,
     req ''thirty_minute_average_price'' TNumber,
     req ''thirty_minute_difference'' TNumber,
     req ''one_hour_volume'' TNumber,
     req ''one_hour_change'' TNumber,
     req ''one_hour_sales'' TNumber,
     req ''one_hour_sales_change'' TNumber,
     req ''one_hour_average_price'' TNumber,
     req ''one_hour_difference'' TNumber,
     req ''six_hour_volume'' TNumber,
     req ''six_hour_change'' TNumber,
     req ''six_hour_sales'' TNumber,
     req ''six_hour_sales_change'' TNumber,
     req ''six_hour_average_price'' TNumber,
     req ''six_hour_difference'' TNumber,
     req ''one_day_volume'' TNumber,
     req ''one_day_change'' TNumber,
     req ''one_day_sales'' TNumber,
     req ''one_day_sales_change'' TNumber,
     req ''one_day_average_price'' TNumber,
     req ''one_day_difference'' TNumber,
     req ''seven_day_volume'' TNumber,
     req ''seven_day_change'' TNumber,
     req ''seven_day_sales'' TNumber,
     req ''seven_day_average_price'' TNumber,
     req ''seven_day_difference'' TNumber,
     req ''thirty_day_volume'' TNumber,
     req ''thirty_day_change'' TNumber,
     req ''thirty_day_sales'' TNumber,
     req ''thirty_day_average_price'' TNumber,
     req ''thirty_day_difference'' TNumber,
     req ''total_volume'' TNumber,
     req ''total_sales'' TNumber,
     req ''total_supply'' TNumber,
     req ''count'' TNumber,
     req ''num_owners'' TNumber,
     req ''average_price'' TNumber,
     req ''num_reports'' TNumber,
     req ''market_cap'' TNumber,
     req ''floor_price'' TNumber]"

text \<open>Lines 308 to 327 of the source.\<close>

definition OpenSeaCollection :: "property list" where
  "OpenSeaCollection = extends [OpenSeaFees] [
     req ''name'' TString,
     req ''slug'' TString,
     req ''editors'' (TArray TString),
     req ''hidden'' TBoolean,
     req ''featured'' TBoolean,
     req ''createdDate'' TDate,
     req ''description'' TString,
     req ''imageUrl'' TString,
     req ''largeImageUrl'' TString,
     req ''featuredImageUrl'' TString,
     req ''stats'' (TRef ''OpenSeaCollectionStats''),
     req ''displayData'' TObject,
     req ''paymentTokens'' (TArray (TRef ''OpenSeaFungibleToken'')),
     opt ''payoutAddress'' TString,
     req ''traitStats'' (TRef ''OpenSeaTraitStats''),
     opt ''externalLink'' TString,
     opt ''wikiLink'' TString,
     req ''fees'' (TRef ''Fees'')]"

text \<open>Lines 328 to 330 of the source.\<close>

definition OpenSeaTraitStats :: decl where
  "OpenSeaTraitStats = IndexSignature (TUnion [TRef ''NumericalTraitStats'', TRef ''StringTraitStats''])"

text \<open>Lines 334 to 354 of the source.\<close>

definition OpenSeaAsset :: "property list" where
  "OpenSeaAsset = extends [Asset] [
     req ''assetContract'' (TRef ''OpenSeaAssetContract''),
     req ''collection'' (TRef ''OpenSeaCollection''),
     req ''name'' TString,
     req ''description'' TString,
     req ''owner'' (TRef ''OpenSeaAccount''),
     req ''orders'' (TUnion [TArray (TRef ''Order''), TNull]),
     req ''buyOrders'' (TUnion [TArray (TRef ''Order''), TNull]),
     req ''sellOrders'' (TUnion [TArray (TRef ''Order''), TNull]),
     req ''isPresale'' TBoolean,
     req ''imageUrl'' TString,
     req ''imagePreviewUrl'' TString,
     req ''imageUrlOriginal'' TString,
     req ''imageUrlThumbnail'' TString,
     req ''openseaLink'' TString,
     req ''externalLink'' TString,
     req ''traits'' (TArray TObject),
     req ''numSales'' TNumber,
     req ''lastSale'' (TUnion [TRef ''AssetEvent'', TNull]),
     req ''backgroundColor'' (TUnion [TString, TNull])]"

text \<open>Lines 358 to 365 of the source.\<close>

definition AssetEvent :: "property list" where
  "AssetEvent = [
     req ''eventType'' (TEnum ''AssetEventType''),
     req ''eventTimestamp'' TDate,
     req ''auctionType'' (TEnum ''AuctionType''),
     req ''totalPrice'' TString,
     req ''transaction'' (TUnion [TRef ''Transaction'', TNull]),
     req ''paymentToken'' (TUnion [TRef ''OpenSeaFungibleToken'', TNull])]"

text \<open>Lines 393 to 403 of the source.\<close>

definition Transaction :: "property list" where
  "Transaction = [
     req ''fromAccount'' (TRef ''OpenSeaAccount''),
     req ''toAccount'' (TRef ''OpenSeaAccount''),
     req ''createdDate'' TDate,
     req ''modifiedDate'' TDate,
     req ''transactionHash'' TString,
     req ''transactionIndex'' TString,
     req ''blockNumber'' TString,
     req ''blockHash'' TString,
     req ''timestamp'' TDate]"

text \<open>Lines 407 to 415 of the source.\<close>

definition OpenSeaFungibleToken :: "property list" where
  "OpenSeaFungibleToken = [
     req ''name'' TString,
     req ''symbol'' TString,
     req ''decimals'' TNumber,
     req ''address'' TString,
     opt ''imageUrl'' TString,
     opt ''ethPrice'' TString,
     opt ''usdPrice'' TString]"

text \<open>Lines 420 to 430 of the source.\<close>

definition OpenSeaAssetBundle :: "property list" where
  "OpenSeaAssetBundle = [
     req ''maker'' (TRef ''OpenSeaAccount''),
     req ''assets'' (TArray (TRef ''OpenSeaAsset'')),
     req ''name'' TString,
     req ''slug'' TString,
     req ''permalink'' TString,
     req ''sellOrders'' (TUnion [TArray (TRef ''Order''), TNull]),
     opt ''assetContract'' (TRef ''OpenSeaAssetContract''),
     opt ''description'' TString,
     opt ''externalLink'' TString]"

text \<open>Lines 461 to 464 of the source.\<close>

definition ComputedFees :: "property list" where
  "ComputedFees = extends [OpenSeaFees] [
     req ''totalBuyerFeeBasisPoints'' TNumber,
     req ''totalSellerFeeBasisPoints'' TNumber]"

text \<open>Lines 465 to 469 of the source.\<close>

definition ExchangeMetadataForAsset :: "property list" where
  "ExchangeMetadataForAsset = [
     req ''asset'' WyvernAsset,
     req ''schema'' (TEnum ''WyvernSchemaName''),
     opt ''referrerAddress'' TString]"

text \<open>Lines 470 to 473 of the source.\<close>

definition ExchangeMetadataForBundle :: "property list" where
  "ExchangeMetadataForBundle = [
     req ''bundle'' (TRef ''WyvernBundle''),
     opt ''referrerAddress'' TString]"

text \<open>Line 474 of the source.\<close>

definition ExchangeMetadata :: ts_type where
  "ExchangeMetadata = TUnion [TRef ''ExchangeMetadataForAsset'', TRef ''ExchangeMetadataForBundle'']"

text \<open>Lines 475 to 504 of the source.\<close>

definition UnhashedOrder :: "property list" where
  "UnhashedOrder = [
     req ''exchange'' TString,
     req ''maker'' TString,
     req ''taker'' TString,
     req ''makerRelayerFee'' TBigNumber,
     req ''takerRelayerFee'' TBigNumber,
     req ''makerProtocolFee'' TBigNumber,
     req ''takerProtocolFee'' TBigNumber,
     req ''feeRecipient'' TString,
     req ''target'' TString,
     req ''calldata'' TString,
     req ''replacementPattern'' TString,
     req ''staticTarget'' TString,
     req ''staticExtradata'' TString,
     req ''paymentToken'' TString,
     req ''basePrice'' TBigNumber,
     req ''extra'' TBigNumber,
     req ''listingTime'' TBigNumber,
     req ''expirationTime'' TBigNumber,
     req ''salt'' TBigNumber,
     req ''feeMethod'' (TEnum ''FeeMethod''),
     req ''side'' (TEnum ''OrderSide''),
     req ''saleKind'' (TEnum ''SaleKind''),
     req ''howToCall'' (TEnum ''HowToCall''),
     req ''quantity'' TBigNumber,
     req ''makerReferrerFee'' TBigNumber,
     req ''waitingForBestCounterOrder'' TBoolean,
     opt ''englishAuctionReservePrice'' TBigNumber,
     req ''metadata'' ExchangeMetadata]"

text \<open>Lines 511 to 513 of the source.\<close>

definition UnsignedOrder :: "property list" where
  "UnsignedOrder = extends [UnhashedOrder] [
     opt ''hash'' TString]"

text \<open>Lines 514 to 518 of the source.\<close>

definition ECSignature :: "property list" where
  "ECSignature = [
     req ''v'' TNumber,
     req ''r'' TString,
     req ''s'' TString]"

text \<open>Lines 523 to 536 of the source.\<close>

definition Order :: "property list" where
  "Order = extends [UnsignedOrder, Partial ECSignature] [
     opt ''createdTime'' TBigNumber,
     opt ''currentPrice'' TBigNumber,
     opt ''currentBounty'' TBigNumber,
     opt ''makerAccount'' (TRef ''OpenSeaAccount''),
     opt ''takerAccount'' (TRef ''OpenSeaAccount''),
     opt ''paymentTokenContract'' (TRef ''OpenSeaFungibleToken''),
     opt ''feeRecipientAccount'' (TRef ''OpenSeaAccount''),
     opt ''cancelledOrFinalized'' TBoolean,
     opt ''markedInvalid'' TBoolean,
     opt ''asset'' (TRef ''OpenSeaAsset''),
     opt ''assetBundle'' (TRef ''OpenSeaAssetBundle''),
     opt ''nonce'' TNumber]"

text \<open>Lines 542 to 572 of the source.\<close>

definition OrderJSON :: "property list" where
  "OrderJSON = extends [Partial ECSignature] [
     req ''exchange'' TString,
     req ''maker'' TString,
     req ''taker'' TString,
     req ''makerRelayerFee'' TString,
     req ''takerRelayerFee'' TString,
     req ''makerProtocolFee'' TString,
     req ''takerProtocolFee'' TString,
     req ''feeRecipient'' TString,
     req ''feeMethod'' TNumber,
     req ''side'' TNumber,
     req ''saleKind'' TNumber,
     req ''target'' TString,
     req ''howToCall'' TNumber,
     req ''calldata'' TString,
     req ''replacementPattern'' TString,
     req ''staticTarget'' TString,
     req ''staticExtradata'' TString,
     req ''paymentToken'' TString,
     req ''basePrice'' TString,
     req ''extra'' TString,
     req ''listingTime'' (TUnion [TNumber, TString]),
     req ''expirationTime'' (TUnion [TNumber, TString]),
     req ''salt'' TString,
     req ''makerReferrerFee'' TString,
     req ''quantity'' TString,
     req ''englishAuctionReservePrice'' (TUnion [TString, TUndefined]),
     opt ''createdTime'' (TUnion [TNumber, TString]),
     req ''metadata'' ExchangeMetadata,
     opt ''nonce'' TNumber]"

text \<open>Line 573 of the source.\<close>

definition RawWyvernOrderJSON :: "property list" where
  "RawWyvernOrderJSON = Omit OrderJSON
     [''makerReferrerFee'', ''quantity'', ''englishAuctionReservePrice'', ''createdTime'',
      ''metadata'', ''hash'', ''v'', ''r'', ''s'']"

text \<open>Lines 618 to 621 of the source.\<close>

definition OrderbookResponse :: "property list" where
  "OrderbookResponse = [
     req ''orders'' (TArray (TRef ''OrderJSON'')),
     req ''count'' TNumber]"

text \<open>
  Line 622 of the source refers to \<^verbatim>\<open>Error\<close>, which the file does not declare: it is
  the interface of TypeScript's library,
  \<^verbatim>\<open>interface Error { name: string; message: string; stack?: string; }\<close>.
  Later versions of the library add \<^verbatim>\<open>cause?: unknown\<close>, which excludes no value.
\<close>

definition Error :: "property list" where
  "Error = [
     req ''name'' TString,
     req ''message'' TString,
     opt ''stack'' TString]"

text \<open>The table that resolves an interface name.\<close>

definition declarations :: "(string \<times> decl) list" where
  "declarations = [
     (''Fees'', Fields Fees),
     (''WyvernNFTAsset'', Fields WyvernNFTAsset),
     (''WyvernFTAsset'', Fields WyvernFTAsset),
     (''WyvernBundle'', Fields WyvernBundle),
     (''OpenSeaAccount'', Fields OpenSeaAccount),
     (''OpenSeaUser'', Fields OpenSeaUser),
     (''Asset'', Fields Asset),
     (''OpenSeaFees'', Fields OpenSeaFees),
     (''OpenSeaAssetContract'', Fields OpenSeaAssetContract),
     (''NumericalTraitStats'', Fields NumericalTraitStats),
     (''StringTraitStats'', StringTraitStats),
     (''OpenSeaCollectionStats'', Fields OpenSeaCollectionStats),
     (''OpenSeaCollection'', Fields OpenSeaCollection),
     (''OpenSeaTraitStats'', OpenSeaTraitStats),
     (''OpenSeaAsset'', Fields OpenSeaAsset),
     (''AssetEvent'', Fields AssetEvent),
     (''Transaction'', Fields Transaction),
     (''OpenSeaFungibleToken'', Fields OpenSeaFungibleToken),
     (''OpenSeaAssetBundle'', Fields OpenSeaAssetBundle),
     (''ComputedFees'', Fields ComputedFees),
     (''ExchangeMetadataForAsset'', Fields ExchangeMetadataForAsset),
     (''ExchangeMetadataForBundle'', Fields ExchangeMetadataForBundle),
     (''UnhashedOrder'', Fields UnhashedOrder),
     (''UnsignedOrder'', Fields UnsignedOrder),
     (''ECSignature'', Fields ECSignature),
     (''Order'', Fields Order),
     (''OrderJSON'', Fields OrderJSON),
     (''OrderbookResponse'', Fields OrderbookResponse),
     (''Error'', Fields Error)]"

definition declared :: "string \<Rightarrow> decl option" where
  "declared n = map_of declarations n"

section \<open>Conformance of a value to a declared type\<close>

text \<open>
  \<open>field_of\<close> reads an own property of an object; \<open>None\<close> is an absent key.
\<close>

fun field_of :: "(string \<times> val) list \<Rightarrow> string \<Rightarrow> val option" where
  "field_of [] k = None"
| "field_of ((k', x) # kvs) k = (if k' = k then Some x else field_of kvs k)"

lemma field_of_size:
  "field_of kvs k = Some x \<Longrightarrow> size x < Suc (size_list (size_prod (\<lambda>_. 0) size) kvs)"
  by (induction kvs) (auto split: if_splits)

lemma elem_size: "x \<in> set xs \<Longrightarrow> size (x::val) < Suc (size_list size xs)"
  by (induction xs) auto

lemma elem_size_ts: "t \<in> set ts \<Longrightarrow> size (t::ts_type) < Suc (size_list size ts)"
  by (induction ts) auto

lemma zip_size:
  "(a, b) \<in> set (zip xs ts) \<Longrightarrow> size (a::val) < Suc (size_list size xs)"
  by (auto dest: set_zip_leftD elem_size)

lemma entry_size:
  "(a, b) \<in> set kvs \<Longrightarrow> size (a::val) < Suc (size_list (size_prod size size) kvs)"
  "(a, b) \<in> set kvs \<Longrightarrow> size (b::val) < Suc (size_list (size_prod size size) kvs)"
  by (induction kvs) auto

lemma member_size:
  "(k, b) \<in> set kvs \<Longrightarrow> size (b::val) < Suc (size_list (size_prod (\<lambda>_. 0) size) kvs)"
  by (induction kvs) auto

text \<open>
  Structural typing under \<^verbatim>\<open>strictNullChecks\<close>, which the explicit \<^verbatim>\<open>| null\<close> and
  \<^verbatim>\<open>| undefined\<close> of the file presuppose:
  \<^item> a required property must be present, with a value of its type, also when that type
    includes \<^verbatim>\<open>undefined\<close>;
  \<^item> an optional property may be absent, or \<^verbatim>\<open>undefined\<close>, or a value of its type;
  \<^item> properties that the interface does not declare are allowed;
  \<^item> a union admits what one of its members admits, and a value may satisfy several
    members at once;
  \<^item> a tuple fixes the number of slots and the type of each position;
  \<^item> an enum admits the values of its members;
  \<^item> \<^verbatim>\<open>void\<close> admits \<^verbatim>\<open>undefined\<close> only, and \<^verbatim>\<open>any\<close> and \<^verbatim>\<open>unknown\<close> admit
    every value.
\<close>

function conforms :: "val \<Rightarrow> ts_type \<Rightarrow> bool" where
  "conforms v TString = (case v of VStr _ \<Rightarrow> True | _ \<Rightarrow> False)"
| "conforms v TNumber = (case v of VNum _ \<Rightarrow> True | _ \<Rightarrow> False)"
| "conforms v TBoolean = (case v of VBool _ \<Rightarrow> True | _ \<Rightarrow> False)"
| "conforms v TNull = (v = VNull)"
| "conforms v TUndefined = (v = VUndefined)"
| "conforms v TBigNumber = (case v of VBig _ \<Rightarrow> True | _ \<Rightarrow> False)"
| "conforms v TDate = (case v of VDate _ \<Rightarrow> True | _ \<Rightarrow> False)"
| "conforms v TObject = (case v of
       VObj _ \<Rightarrow> True | VArr _ \<Rightarrow> True | VMap _ \<Rightarrow> True
     | VDate _ \<Rightarrow> True | VBig _ \<Rightarrow> True
     | _ \<Rightarrow> False)"
| "conforms v TVoid = (v = VUndefined)"
| "conforms v TAny = True"
| "conforms v (TEnum n) = (v \<in> set (enum_members n))"
| "conforms v (TArray t) = (case v of
       VArr xs \<Rightarrow> list_all (\<lambda>x. conforms x t) xs
     | _ \<Rightarrow> False)"
| "conforms v (TTuple ts) = (case v of
       VArr xs \<Rightarrow> length xs = length ts \<and> list_all (\<lambda>(x, t). conforms x t) (zip xs ts)
     | _ \<Rightarrow> False)"
| "conforms v (TUnion ts) = list_ex (\<lambda>t. conforms v t) ts"
| "conforms v (TMap kt vt) = (case v of
       VMap kvs \<Rightarrow> list_all (\<lambda>(k, x). conforms k kt \<and> conforms x vt) kvs
     | _ \<Rightarrow> False)"
| "conforms v (TRef n) = (case v of
       VObj kvs \<Rightarrow> (case declared n of
           None \<Rightarrow> False
         | Some (Fields ps) \<Rightarrow>
             list_all (\<lambda>p. case field_of kvs (pname p) of
                 None \<Rightarrow> optional p
               | Some x \<Rightarrow> (optional p \<and> x = VUndefined) \<or> conforms x (ptype p)) ps
         | Some (IndexSignature t) \<Rightarrow> list_all (\<lambda>(k, x). conforms x t) kvs)
     | _ \<Rightarrow> False)"
  by pat_completeness auto
termination
  apply (relation "inv_image (less_than <*lex*> less_than) (\<lambda>(v, t). (size v, size t))")
  apply (auto dest: field_of_size elem_size elem_size_ts entry_size member_size zip_size)
  done

subsection \<open>Callback signatures\<close>

text \<open>
  Line 622 of the source:
  \<^verbatim>\<open>export type Web3Callback<T> = (err: Error | null, result: T) => void;\<close>
  A function type is its parameter list; \<open>accepts\<close> says which argument lists a call
  may pass: one argument per parameter, in order.  At the end of the list a parameter may
  be left out when it is optional, or when its type is \<^verbatim>\<open>void\<close> or a union with a
  member \<^verbatim>\<open>void\<close>, which is how TypeScript counts the arguments a call must pass.
\<close>

definition Web3Callback :: "ts_type \<Rightarrow> property list" where
  "Web3Callback T = [
     req ''err'' (TUnion [TRef ''Error'', TNull]),
     req ''result'' T]"

fun accepts_void :: "ts_type \<Rightarrow> bool" where
  "accepts_void TVoid = True"
| "accepts_void (TUnion ts) = list_ex accepts_void ts"
| "accepts_void _ = False"

fun accepts :: "property list \<Rightarrow> val list \<Rightarrow> bool" where
  "accepts [] [] = True"
| "accepts [] (x # xs) = False"
| "accepts (p # ps) [] = ((optional p \<or> accepts_void (ptype p)) \<and> accepts ps [])"
| "accepts (p # ps) (x # xs) =
     (((optional p \<and> x = VUndefined) \<or> conforms x (ptype p)) \<and> accepts ps xs)"

section \<open>Reading a value\<close>

fun property_of :: "val \<Rightarrow> string \<Rightarrow> val option" where
  "property_of (VObj kvs) k = field_of kvs k"
| "property_of _ k = None"

definition has_string :: "val \<Rightarrow> string \<Rightarrow> bool" where
  "has_string v k = (case property_of v k of Some (VStr s) \<Rightarrow> True | _ \<Rightarrow> False)"

definition has_number :: "val \<Rightarrow> string \<Rightarrow> bool" where
  "has_number v k = (case property_of v k of Some (VNum n) \<Rightarrow> True | _ \<Rightarrow> False)"

definition has_number_or_string :: "val \<Rightarrow> string \<Rightarrow> bool" where
  "has_number_or_string v k = (has_number v k \<or> has_string v k)"


subsection \<open>Sample values\<close>

text \<open>
  Concrete orders, used where a statement is evaluated at an input.  The metadata of the
  first names one non-fungible asset; the second carries \<^verbatim>\<open>asset\<close>, \<^verbatim>\<open>schema\<close> and
  \<^verbatim>\<open>bundle\<close> together.
\<close>

definition example_nft :: val where
  "example_nft = VObj [
     (''id'', VStr ''7''),
     (''address'', VStr ''0x06012c8cf97bead5deae237070f9587f8e7a266d'')]"

definition example_asset_metadata :: val where
  "example_asset_metadata = VObj [
     (''asset'', example_nft),
     (''schema'', VStr ''ERC721'')]"

definition example_bundle :: val where
  "example_bundle = VObj [
     (''assets'', VArr [example_nft]),
     (''schemas'', VArr [VStr ''ERC721'']),
     (''name'', VStr ''one kitty'')]"


definition example_both_metadata :: val where
  "example_both_metadata = VObj [
     (''asset'', example_nft),
     (''schema'', VStr ''ERC721''),
     (''bundle'', example_bundle)]"

definition example_order_properties :: "(string \<times> val) list" where
  "example_order_properties = [
     (''exchange'', VStr ''0x7be8076f4ea4a4ad08075c2508e481d6c946d12b''),
     (''maker'', VStr ''0x0000000000000000000000000000000000000001''),
     (''taker'', VStr ''0x0000000000000000000000000000000000000000''),
     (''makerRelayerFee'', VBig 250),
     (''takerRelayerFee'', VBig 0),
     (''makerProtocolFee'', VBig 0),
     (''takerProtocolFee'', VBig 0),
     (''feeRecipient'', VStr ''0x5b3256965e7c3cf26e11fcaf296dfc8807c01073''),
     (''target'', VStr ''0x06012c8cf97bead5deae237070f9587f8e7a266d''),
     (''calldata'', VStr ''0x''),
     (''replacementPattern'', VStr ''0x''),
     (''staticTarget'', VStr ''0x0000000000000000000000000000000000000000''),
     (''staticExtradata'', VStr ''0x''),
     (''paymentToken'', VStr ''0x0000000000000000000000000000000000000000''),
     (''basePrice'', VBig 1000000000000000000),
     (''extra'', VBig 0),
     (''listingTime'', VBig 1600000000),
     (''expirationTime'', VBig 0),
     (''salt'', VBig 12345),
     (''feeMethod'', VNum 1),
     (''side'', VNum 0),
     (''saleKind'', VNum 0),
     (''howToCall'', VNum 0),
     (''quantity'', VBig 1),
     (''makerReferrerFee'', VBig 0),
     (''waitingForBestCounterOrder'', VBool False)]"

definition example_order :: val where
  "example_order = VObj (example_order_properties @ [(''metadata'', example_asset_metadata)])"

definition example_order_both :: val where
  "example_order_both = VObj (example_order_properties @ [(''metadata'', example_both_metadata)])"

definition example_order_v_only :: val where
  "example_order_v_only =
     VObj (example_order_properties @ [(''metadata'', example_asset_metadata), (''v'', VNum 27)])"

definition example_order_json :: val where
  "example_order_json = VObj [
     (''exchange'', VStr ''0x7be8076f4ea4a4ad08075c2508e481d6c946d12b''),
     (''maker'', VStr ''0x0000000000000000000000000000000000000001''),
     (''taker'', VStr ''0x0000000000000000000000000000000000000000''),
     (''makerRelayerFee'', VStr ''250''),
     (''takerRelayerFee'', VStr ''0''),
     (''makerProtocolFee'', VStr ''0''),
     (''takerProtocolFee'', VStr ''0''),
     (''feeRecipient'', VStr ''0x5b3256965e7c3cf26e11fcaf296dfc8807c01073''),
     (''feeMethod'', VNum 1),
     (''side'', VNum 0),
     (''saleKind'', VNum 0),
     (''target'', VStr ''0x06012c8cf97bead5deae237070f9587f8e7a266d''),
     (''howToCall'', VNum 0),
     (''calldata'', VStr ''0x''),
     (''replacementPattern'', VStr ''0x''),
     (''staticTarget'', VStr ''0x0000000000000000000000000000000000000000''),
     (''staticExtradata'', VStr ''0x''),
     (''paymentToken'', VStr ''0x0000000000000000000000000000000000000000''),
     (''basePrice'', VStr ''1000000000000000000''),
     (''extra'', VStr ''0''),
     (''listingTime'', VNum 1600000000),
     (''expirationTime'', VNum 0),
     (''salt'', VStr ''12345''),
     (''makerReferrerFee'', VStr ''0''),
     (''quantity'', VStr ''1''),
     (''englishAuctionReservePrice'', VUndefined),
     (''metadata'', example_asset_metadata)]"

text \<open>An error object, as a handler receives it.\<close>

definition example_error :: val where
  "example_error = VObj [
     (''name'', VStr ''Error''),
     (''message'', VStr ''reverted'')]"

text \<open>
  Two argument lists for the atomic match call: the first has six strings between the
  arrays, the second has five.
\<close>

definition example_atomic_match_arguments :: val where
  "example_atomic_match_arguments = VArr [
     VArr [VStr ''0x7be8076f4ea4a4ad08075c2508e481d6c946d12b''],
     VArr [VBig 250],
     VArr [VNum 1, VNum 0],
     VStr ''0x23b872dd'',
     VStr ''0x23b872dd'',
     VStr ''0x00'',
     VStr ''0x00'',
     VStr ''0x'',
     VStr ''0x'',
     VArr [VNum 27, VNum 28],
     VArr [VStr ''0x01'']]"

definition example_five_string_arguments :: val where
  "example_five_string_arguments = VArr [
     VArr [VStr ''0x7be8076f4ea4a4ad08075c2508e481d6c946d12b''],
     VArr [VBig 250],
     VArr [VNum 1, VNum 0],
     VStr ''0x23b872dd'',
     VStr ''0x23b872dd'',
     VStr ''0x00'',
     VStr ''0x00'',
     VStr ''0x'',
     VArr [VNum 27, VNum 28],
     VArr [VStr ''0x01'']]"

section \<open>Orders as records, and their JSON form\<close>

text \<open>
  The four numeric enums of the order (lines 97 to 118 and 505 to 510 of the source),
  with the number each member is declared with:
  \<^verbatim>\<open>OrderSide { Buy = 0, Sell = 1 }\<close>,
  \<^verbatim>\<open>FeeMethod { ProtocolFee = 0, SplitFee = 1 }\<close>,
  \<^verbatim>\<open>SaleKind { FixedPrice = 0, DutchAuction = 1 }\<close>,
  \<^verbatim>\<open>HowToCall { Call = 0, DelegateCall = 1, StaticCall = 2, Create = 3 }\<close>.
\<close>

datatype OrderSide = Buy | Sell

datatype FeeMethod = ProtocolFee | SplitFee

datatype SaleKind = FixedPrice | DutchAuction

datatype HowToCall = Call | DelegateCall | StaticCall | Create

fun OrderSide_number :: "OrderSide \<Rightarrow> int" where
  "OrderSide_number Buy = 0"
| "OrderSide_number Sell = 1"

fun FeeMethod_number :: "FeeMethod \<Rightarrow> int" where
  "FeeMethod_number ProtocolFee = 0"
| "FeeMethod_number SplitFee = 1"

fun SaleKind_number :: "SaleKind \<Rightarrow> int" where
  "SaleKind_number FixedPrice = 0"
| "SaleKind_number DutchAuction = 1"

fun HowToCall_number :: "HowToCall \<Rightarrow> int" where
  "HowToCall_number Call = 0"
| "HowToCall_number DelegateCall = 1"
| "HowToCall_number StaticCall = 2"
| "HowToCall_number Create = 3"

text \<open>
  The interface \<^verbatim>\<open>UnhashedOrder\<close> (lines 475 to 504 of the source) as a record.  A \<^verbatim>\<open>BigNumber\<close> field holds an
  integer of any size; the optional \<^verbatim>\<open>englishAuctionReservePrice\<close> is an option; the
  metadata stays a value of the untagged union \<^verbatim>\<open>ExchangeMetadata\<close>.
\<close>

record unhashed_order =
  exchange :: string
  maker :: string
  taker :: string
  makerRelayerFee :: int
  takerRelayerFee :: int
  makerProtocolFee :: int
  takerProtocolFee :: int
  feeRecipient :: string
  target :: string
  calldata :: string
  replacementPattern :: string
  staticTarget :: string
  staticExtradata :: string
  paymentToken :: string
  basePrice :: int
  extra :: int
  listingTime :: int
  expirationTime :: int
  salt :: int
  feeMethod :: FeeMethod
  side :: OrderSide
  saleKind :: SaleKind
  howToCall :: HowToCall
  quantity :: int
  makerReferrerFee :: int
  waitingForBestCounterOrder :: bool
  englishAuctionReservePrice :: "int option"
  metadata :: val

subsection \<open>Decimal strings\<close>

text \<open>
  The source declares only the types of the two sides of the wire; the spec says that
  every amount crosses it as a decimal string.  The rendering and the parser below are
  therefore written from the spec.  A negative number has a leading minus sign; there is
  no exponent notation, no leading plus and no blank.
\<close>

text \<open>Modelled from the spec: the ten characters a decimal string is written with.\<close>

definition decimal_digits :: string where
  "decimal_digits = ''0123456789''"

text \<open>Modelled from the spec: the character of one decimal digit (converter code is absent).\<close>

definition digit_char :: "nat \<Rightarrow> char" where
  "digit_char d = decimal_digits ! (d mod 10)"

text \<open>Modelled from the spec: the digit a character stands for, if it is a decimal digit.\<close>

definition digit_value :: "char \<Rightarrow> nat option" where
  "digit_value c = map_of (zip decimal_digits [0..<10]) c"

text \<open>Modelled from the spec: the digits of a natural number, most significant first.\<close>

fun nat_to_decimal :: "nat \<Rightarrow> string" where
  "nat_to_decimal n =
     (if n < 10 then [digit_char n] else nat_to_decimal (n div 10) @ [digit_char (n mod 10)])"

declare nat_to_decimal.simps [simp del]

text \<open>Modelled from the spec: reading digits from the left, failing on any other character.\<close>

fun parse_digits :: "nat \<Rightarrow> string \<Rightarrow> nat option" where
  "parse_digits acc [] = Some acc"
| "parse_digits acc (c # cs) =
     (case digit_value c of None \<Rightarrow> None | Some d \<Rightarrow> parse_digits (10 * acc + d) cs)"

text \<open>Modelled from the spec: \<^verbatim>\<open>BigNumber\<close> to decimal string.\<close>

definition int_to_decimal :: "int \<Rightarrow> string" where
  "int_to_decimal i =
     (if i < 0 then CHR ''-'' # nat_to_decimal (nat (- i)) else nat_to_decimal (nat i))"

text \<open>Modelled from the spec: decimal string to \<^verbatim>\<open>BigNumber\<close>; \<open>None\<close> is a parse failure.\<close>

fun decimal_to_int :: "string \<Rightarrow> int option" where
  "decimal_to_int [] = None"
| "decimal_to_int (c # cs) =
     (if c = CHR ''-''
      then (if cs = [] then None else map_option (\<lambda>n. - int n) (parse_digits 0 cs))
      else map_option int (parse_digits 0 (c # cs)))"

subsection \<open>Serializing and deserializing an order\<close>

text \<open>
  Modelled from the spec: the converter from \<^verbatim>\<open>UnhashedOrder\<close> to \<^verbatim>\<open>OrderJSON\<close>,
  which is not in the source.  Every \<^verbatim>\<open>BigNumber\<close> becomes a decimal string, an enum
  becomes its number, strings and the metadata are copied.  The key
  \<^verbatim>\<open>englishAuctionReservePrice\<close> is always written, bound to \<^verbatim>\<open>undefined\<close> when the
  order has no reserve price.  \<^verbatim>\<open>OrderJSON\<close> has no key for
  \<^verbatim>\<open>waitingForBestCounterOrder\<close>.
\<close>

definition orderToJSON :: "unhashed_order \<Rightarrow> val" where
  "orderToJSON ord = VObj [
     (''exchange'', VStr (exchange ord)),
     (''maker'', VStr (maker ord)),
     (''taker'', VStr (taker ord)),
     (''makerRelayerFee'', VStr (int_to_decimal (makerRelayerFee ord))),
     (''takerRelayerFee'', VStr (int_to_decimal (takerRelayerFee ord))),
     (''makerProtocolFee'', VStr (int_to_decimal (makerProtocolFee ord))),
     (''takerProtocolFee'', VStr (int_to_decimal (takerProtocolFee ord))),
     (''feeRecipient'', VStr (feeRecipient ord)),
     (''feeMethod'', VNum (FeeMethod_number (feeMethod ord))),
     (''side'', VNum (OrderSide_number (side ord))),
     (''saleKind'', VNum (SaleKind_number (saleKind ord))),
     (''target'', VStr (target ord)),
     (''howToCall'', VNum (HowToCall_number (howToCall ord))),
     (''calldata'', VStr (calldata ord)),
     (''replacementPattern'', VStr (replacementPattern ord)),
     (''staticTarget'', VStr (staticTarget ord)),
     (''staticExtradata'', VStr (staticExtradata ord)),
     (''paymentToken'', VStr (paymentToken ord)),
     (''basePrice'', VStr (int_to_decimal (basePrice ord))),
     (''extra'', VStr (int_to_decimal (extra ord))),
     (''listingTime'', VStr (int_to_decimal (listingTime ord))),
     (''expirationTime'', VStr (int_to_decimal (expirationTime ord))),
     (''salt'', VStr (int_to_decimal (salt ord))),
     (''makerReferrerFee'', VStr (int_to_decimal (makerReferrerFee ord))),
     (''quantity'', VStr (int_to_decimal (quantity ord))),
     (''englishAuctionReservePrice'',
        (case englishAuctionReservePrice ord of
           None \<Rightarrow> VUndefined
         | Some p \<Rightarrow> VStr (int_to_decimal p))),
     (''metadata'', metadata ord)]"

text \<open>
  The deserializer reads each \<^verbatim>\<open>OrderJSON\<close> property with a reader for its kind.
\<close>

text \<open>Modelled from the spec: reading a \<^verbatim>\<open>string\<close> property (the converter is absent).\<close>

definition string_at :: "val \<Rightarrow> string \<Rightarrow> string option" where
  "string_at j k = (case property_of j k of Some (VStr s) \<Rightarrow> Some s | _ \<Rightarrow> None)"

text \<open>Modelled from the spec: reading an amount, a decimal string, into a \<^verbatim>\<open>BigNumber\<close>.\<close>

definition amount_at :: "val \<Rightarrow> string \<Rightarrow> int option" where
  "amount_at j k = (case property_of j k of Some (VStr s) \<Rightarrow> decimal_to_int s | _ \<Rightarrow> None)"

text \<open>
  Modelled from the spec: reading a timestamp, declared \<^verbatim>\<open>number | string\<close>; both
  forms are accepted.
\<close>

definition time_at :: "val \<Rightarrow> string \<Rightarrow> int option" where
  "time_at j k =
     (case property_of j k of
        Some (VStr s) \<Rightarrow> decimal_to_int s
      | Some (VNum n) \<Rightarrow> Some n
      | _ \<Rightarrow> None)"

text \<open>
  Modelled from the spec: reading the reserve price, declared \<^verbatim>\<open>string | undefined\<close>
  under a mandatory key.
\<close>

definition optional_amount_at :: "val \<Rightarrow> string \<Rightarrow> int option option" where
  "optional_amount_at j k =
     (case property_of j k of
        Some VUndefined \<Rightarrow> Some None
      | Some (VStr s) \<Rightarrow> map_option Some (decimal_to_int s)
      | _ \<Rightarrow> None)"

text \<open>Modelled from the spec: reading a \<^verbatim>\<open>number\<close> property (the converter is absent).\<close>

definition number_at :: "val \<Rightarrow> string \<Rightarrow> int option" where
  "number_at j k = (case property_of j k of Some (VNum n) \<Rightarrow> Some n | _ \<Rightarrow> None)"

text \<open>Modelled from the spec: the \<^verbatim>\<open>OrderSide\<close> a number stands for; other numbers are rejected.\<close>

definition OrderSide_of :: "int \<Rightarrow> OrderSide option" where
  "OrderSide_of n = (if n = 0 then Some Buy else if n = 1 then Some Sell else None)"

text \<open>Modelled from the spec: the \<^verbatim>\<open>FeeMethod\<close> a number stands for; other numbers are rejected.\<close>

definition FeeMethod_of :: "int \<Rightarrow> FeeMethod option" where
  "FeeMethod_of n = (if n = 0 then Some ProtocolFee else if n = 1 then Some SplitFee else None)"

text \<open>Modelled from the spec: the \<^verbatim>\<open>SaleKind\<close> a number stands for; other numbers are rejected.\<close>

definition SaleKind_of :: "int \<Rightarrow> SaleKind option" where
  "SaleKind_of n = (if n = 0 then Some FixedPrice else if n = 1 then Some DutchAuction else None)"

text \<open>Modelled from the spec: the \<^verbatim>\<open>HowToCall\<close> a number stands for; other numbers are rejected.\<close>

definition HowToCall_of :: "int \<Rightarrow> HowToCall option" where
  "HowToCall_of n =
     (if n = 0 then Some Call else if n = 1 then Some DelegateCall
      else if n = 2 then Some StaticCall else if n = 3 then Some Create else None)"

text \<open>
  Modelled from the spec: the converter from \<^verbatim>\<open>OrderJSON\<close> back to
  \<^verbatim>\<open>UnhashedOrder\<close>, which is not in the source.  \<^verbatim>\<open>OrderJSON\<close> does not carry
  \<^verbatim>\<open>waitingForBestCounterOrder\<close>, so the caller supplies it.
\<close>

definition orderFromJSON :: "val \<Rightarrow> bool \<Rightarrow> unhashed_order option" where
  "orderFromJSON j waiting = do {
     exchange' \<leftarrow> string_at j ''exchange'';
     maker' \<leftarrow> string_at j ''maker'';
     taker' \<leftarrow> string_at j ''taker'';
     makerRelayerFee' \<leftarrow> amount_at j ''makerRelayerFee'';
     takerRelayerFee' \<leftarrow> amount_at j ''takerRelayerFee'';
     makerProtocolFee' \<leftarrow> amount_at j ''makerProtocolFee'';
     takerProtocolFee' \<leftarrow> amount_at j ''takerProtocolFee'';
     feeRecipient' \<leftarrow> string_at j ''feeRecipient'';
     feeMethod' \<leftarrow> number_at j ''feeMethod'' \<bind> FeeMethod_of;
     side' \<leftarrow> number_at j ''side'' \<bind> OrderSide_of;
     saleKind' \<leftarrow> number_at j ''saleKind'' \<bind> SaleKind_of;
     target' \<leftarrow> string_at j ''target'';
     howToCall' \<leftarrow> number_at j ''howToCall'' \<bind> HowToCall_of;
     calldata' \<leftarrow> string_at j ''calldata'';
     replacementPattern' \<leftarrow> string_at j ''replacementPattern'';
     staticTarget' \<leftarrow> string_at j ''staticTarget'';
     staticExtradata' \<leftarrow> string_at j ''staticExtradata'';
     paymentToken' \<leftarrow> string_at j ''paymentToken'';
     basePrice' \<leftarrow> amount_at j ''basePrice'';
     extra' \<leftarrow> amount_at j ''extra'';
     listingTime' \<leftarrow> time_at j ''listingTime'';
     expirationTime' \<leftarrow> time_at j ''expirationTime'';
     salt' \<leftarrow> amount_at j ''salt'';
     makerReferrerFee' \<leftarrow> amount_at j ''makerReferrerFee'';
     quantity' \<leftarrow> amount_at j ''quantity'';
     reserve' \<leftarrow> optional_amount_at j ''englishAuctionReservePrice'';
     metadata' \<leftarrow> property_of j ''metadata'';
     Some \<lparr>exchange = exchange', maker = maker', taker = taker',
       makerRelayerFee = makerRelayerFee', takerRelayerFee = takerRelayerFee',
       makerProtocolFee = makerProtocolFee', takerProtocolFee = takerProtocolFee',
       feeRecipient = feeRecipient', target = target', calldata = calldata',
       replacementPattern = replacementPattern', staticTarget = staticTarget',
       staticExtradata = staticExtradata', paymentToken = paymentToken',
       basePrice = basePrice', extra = extra', listingTime = listingTime',
       expirationTime = expirationTime', salt = salt', feeMethod = feeMethod',
       side = side', saleKind = saleKind', howToCall = howToCall',
       quantity = quantity', makerReferrerFee = makerReferrerFee',
       waitingForBestCounterOrder = waiting,
       englishAuctionReservePrice = reserve', metadata = metadata'\<rparr>
   }"


section \<open>Properties of the declarations\<close>

subsection \<open>Type operators and name resolution\<close>

lemma Omit_filter: "Omit ps ks = filter (\<lambda>p. pname p \<notin> set ks) ps"
proof -
  have "pname p \<in> set (Exclude (keyof ps) ks) \<longleftrightarrow> pname p \<notin> set ks" if "p \<in> set ps" for p
    using that by (auto simp: Exclude_def keyof_def)
  then show ?thesis
    unfolding Omit_def Pick_def by (auto intro: filter_cong)
qed

lemma OrderJSON_properties:
  "OrderJSON = [
     opt ''v'' TNumber,
     opt ''r'' TString,
     opt ''s'' TString,
     req ''exchange'' TString,
     req ''maker'' TString,
     req ''taker'' TString,
     req ''makerRelayerFee'' TString,
     req ''takerRelayerFee'' TString,
     req ''makerProtocolFee'' TString,
     req ''takerProtocolFee'' TString,
     req ''feeRecipient'' TString,
     req ''feeMethod'' TNumber,
     req ''side'' TNumber,
     req ''saleKind'' TNumber,
     req ''target'' TString,
     req ''howToCall'' TNumber,
     req ''calldata'' TString,
     req ''replacementPattern'' TString,
     req ''staticTarget'' TString,
     req ''staticExtradata'' TString,
     req ''paymentToken'' TString,
     req ''basePrice'' TString,
     req ''extra'' TString,
     req ''listingTime'' (TUnion [TNumber, TString]),
     req ''expirationTime'' (TUnion [TNumber, TString]),
     req ''salt'' TString,
     req ''makerReferrerFee'' TString,
     req ''quantity'' TString,
     req ''englishAuctionReservePrice'' (TUnion [TString, TUndefined]),
     opt ''createdTime'' (TUnion [TNumber, TString]),
     req ''metadata'' ExchangeMetadata,
     opt ''nonce'' TNumber]"
  by (simp add: OrderJSON_def extends_def Partial_def ECSignature_def keyof_def)

lemma declared_OrderJSON: "declared ''OrderJSON'' = Some (Fields OrderJSON)"
  by (simp add: declared_def declarations_def)

lemma declared_Order: "declared ''Order'' = Some (Fields Order)"
  by (simp add: declared_def declarations_def)


subsection \<open>What conformance gives for one property\<close>

lemma conforms_property:
  assumes "conforms v (TRef n)" and "declared n = Some (Fields ps)" and "p \<in> set ps"
  shows "case property_of v (pname p) of
           None \<Rightarrow> optional p
         | Some x \<Rightarrow> (optional p \<and> x = VUndefined) \<or> conforms x (ptype p)"
  using assms by (cases v) (simp_all add: list_all_iff)

lemma conforms_required:
  assumes "conforms v (TRef n)" and "declared n = Some (Fields ps)" and "req k t \<in> set ps"
  shows "\<exists>x. property_of v k = Some x \<and> conforms x t"
  using conforms_property [OF assms] by (auto split: option.splits)

lemma conforms_TString: "conforms x TString \<longleftrightarrow> (\<exists>s. x = VStr s)"
  by (cases x) simp_all

lemma conforms_TNumber: "conforms x TNumber \<longleftrightarrow> (\<exists>n. x = VNum n)"
  by (cases x) simp_all

lemma conforms_Error_or_null:
  "conforms e (TUnion [TRef ''Error'', TNull]) \<longleftrightarrow> e = VNull \<or> conforms e (TRef ''Error'')"
  by (cases e) auto


lemma required_string:
  assumes "conforms v (TRef n)" and "declared n = Some (Fields ps)" and "req k TString \<in> set ps"
  shows "has_string v k"
  using conforms_required [OF assms] by (auto simp: has_string_def conforms_TString)

lemma required_number:
  assumes "conforms v (TRef n)" and "declared n = Some (Fields ps)" and "req k TNumber \<in> set ps"
  shows "has_number v k"
  using conforms_required [OF assms] by (auto simp: has_number_def conforms_TNumber)

lemma required_number_or_string:
  assumes "conforms v (TRef n)" and "declared n = Some (Fields ps)"
    and "req k (TUnion [TNumber, TString]) \<in> set ps"
  shows "has_number_or_string v k"
  using conforms_required [OF assms]
  by (auto simp: has_number_or_string_def has_number_def has_string_def
      conforms_TString conforms_TNumber)

lemma example_order_json_conforms: "conforms example_order_json (TRef ''OrderJSON'')"
  by code_simp

lemma example_order_conforms: "conforms example_order (TRef ''Order'')"
  by code_simp


subsection \<open>Decimal strings parse back to the number they render\<close>

lemma digit_value_digit_char: "digit_value (digit_char d) = Some (d mod 10)"
proof -
  have "map_of (zip decimal_digits [0..<10]) (decimal_digits ! (d mod 10))
          = Some ([0..<10] ! (d mod 10))"
    by (rule map_of_zip_nth) (simp_all add: decimal_digits_def)
  then show ?thesis
    by (simp add: digit_value_def digit_char_def)
qed

lemma digit_value_unfold:
  "digit_value c = map_of (zip ''0123456789'' [0, 1, 2, 3, 4, 5, 6, 7, 8, 9]) c"
  by (simp add: digit_value_def decimal_digits_def upt_rec)

lemma digit_char_not_minus: "digit_char d \<noteq> CHR ''-''"
proof -
  have "digit_char d \<in> set decimal_digits"
    unfolding digit_char_def by (rule nth_mem) (simp add: decimal_digits_def)
  then show ?thesis
    by (auto simp: decimal_digits_def)
qed

lemma parse_digits_append:
  "parse_digits acc (xs @ ys) =
     (case parse_digits acc xs of None \<Rightarrow> None | Some a \<Rightarrow> parse_digits a ys)"
  by (induction xs arbitrary: acc) (auto split: option.splits)

lemma parse_digits_nat_to_decimal: "parse_digits 0 (nat_to_decimal n) = Some n"
proof (induction n rule: nat_to_decimal.induct)
  case (1 n)
  show ?case
  proof (cases "n < 10")
    case True
    then show ?thesis
      by (subst nat_to_decimal.simps) (simp add: digit_value_digit_char)
  next
    case False
    with 1 have "parse_digits 0 (nat_to_decimal (n div 10)) = Some (n div 10)"
      by simp
    with False show ?thesis
      by (subst nat_to_decimal.simps)
         (simp add: parse_digits_append digit_value_digit_char)
  qed
qed

lemma nat_to_decimal_not_Nil: "nat_to_decimal n \<noteq> []"
  by (subst nat_to_decimal.simps) simp

lemma nat_to_decimal_no_minus: "hd (nat_to_decimal n) \<noteq> CHR ''-''"
proof (induction n rule: nat_to_decimal.induct)
  case (1 n)
  show ?case
  proof (cases "n < 10")
    case True
    then show ?thesis
      by (subst nat_to_decimal.simps) (simp add: digit_char_not_minus)
  next
    case False
    with 1 nat_to_decimal_not_Nil [of "n div 10"] show ?thesis
      by (subst nat_to_decimal.simps) simp
  qed
qed

lemma decimal_to_int_int_to_decimal: "decimal_to_int (int_to_decimal i) = Some i"
proof (cases "i < 0")
  case True
  then show ?thesis
    by (simp add: int_to_decimal_def parse_digits_nat_to_decimal nat_to_decimal_not_Nil)
next
  case False
  obtain c cs where s: "nat_to_decimal (nat i) = c # cs"
    using nat_to_decimal_not_Nil [of "nat i"] by (cases "nat_to_decimal (nat i)") auto
  with nat_to_decimal_no_minus [of "nat i"] have "c \<noteq> CHR ''-''" by simp
  moreover have "parse_digits 0 (c # cs) = Some (nat i)"
    using parse_digits_nat_to_decimal [of "nat i"] s by simp
  ultimately show ?thesis
    using False s by (simp add: int_to_decimal_def del: parse_digits.simps)
qed

lemma enum_roundtrips:
  "OrderSide_of (OrderSide_number a) = Some a"
  "FeeMethod_of (FeeMethod_number b) = Some b"
  "SaleKind_of (SaleKind_number c) = Some c"
  "HowToCall_of (HowToCall_number d) = Some d"
  by (cases a; cases b; cases c; cases d;
      simp add: OrderSide_of_def FeeMethod_of_def SaleKind_of_def HowToCall_of_def)+

subsection \<open>The JSON form of an order\<close>

lemma orderFromJSON_orderToJSON:
  "orderFromJSON (orderToJSON ord) w = Some (ord\<lparr>waitingForBestCounterOrder := w\<rparr>)"
  by (cases ord)
     (simp add: orderFromJSON_def orderToJSON_def string_at_def amount_at_def time_at_def
        optional_amount_at_def number_at_def enum_roundtrips decimal_to_int_int_to_decimal
        split: option.splits)

lemma orderToJSON_strings:
  "list_all (has_string (orderToJSON ord))
     [''makerRelayerFee'', ''takerRelayerFee'', ''makerProtocolFee'', ''takerProtocolFee'',
      ''makerReferrerFee'', ''basePrice'', ''extra'', ''listingTime'', ''expirationTime'',
      ''salt'', ''quantity'']"
  by (simp add: orderToJSON_def has_string_def)

text \<open>The serializer writes a value of the declared type \<^verbatim>\<open>OrderJSON\<close>.\<close>

lemma orderToJSON_conforms:
  assumes "conforms (metadata ord) ExchangeMetadata"
  shows "conforms (orderToJSON ord) (TRef ''OrderJSON'')"
  using assms
  by (simp add: orderToJSON_def declared_OrderJSON OrderJSON_properties split: option.splits)

text \<open>
  The spec's example: \<^verbatim>\<open>side = 0\<close>, \<^verbatim>\<open>saleKind = 0\<close>,
  \<^verbatim>\<open>basePrice = "1000000000000000000"\<close>, \<^verbatim>\<open>extra = "0"\<close> deserialize to a base price
  of \<open>10^18\<close> and to \<^verbatim>\<open>OrderSide.Buy\<close>.
\<close>

lemma example_order_json_deserializes:
  "\<exists>ord. orderFromJSON example_order_json False = Some ord
     \<and> basePrice ord = 10 ^ 18 \<and> extra ord = 0 \<and> side ord = Buy \<and> saleKind ord = FixedPrice"
  by (simp add: orderFromJSON_def example_order_json_def string_at_def amount_at_def
      time_at_def optional_amount_at_def number_at_def OrderSide_of_def FeeMethod_of_def
      SaleKind_of_def HowToCall_of_def digit_value_unfold)

text \<open>An amount beyond \<open>2^53\<close>, where a double would round.\<close>

lemma decimal_beyond_double_precision:
  "int_to_decimal (2 ^ 53 + 1) = ''9007199254740993''
   \<and> decimal_to_int ''9007199254740993'' = Some (2 ^ 53 + 1)"
  by (simp add: int_to_decimal_def nat_to_decimal.simps digit_char_def decimal_digits_def
      digit_value_unfold)

section \<open>The claims\<close>

subsection \<open>How OrderJSON types the numeric order fields\<close>

text \<open>
  Claim C1, as amended.  In every value of type \<^verbatim>\<open>OrderJSON\<close> the fee amounts
  (\<^verbatim>\<open>makerRelayerFee\<close>, \<^verbatim>\<open>takerRelayerFee\<close>, \<^verbatim>\<open>makerProtocolFee\<close>,
  \<^verbatim>\<open>takerProtocolFee\<close>, \<^verbatim>\<open>makerReferrerFee\<close>), \<^verbatim>\<open>basePrice\<close>, \<^verbatim>\<open>extra\<close>,
  \<^verbatim>\<open>salt\<close> and \<^verbatim>\<open>quantity\<close> are strings; the timestamps \<^verbatim>\<open>listingTime\<close> and
  \<^verbatim>\<open>expirationTime\<close> are a number or a string; the enum discriminants
  \<^verbatim>\<open>feeMethod\<close>, \<^verbatim>\<open>side\<close>, \<^verbatim>\<open>saleKind\<close> and \<^verbatim>\<open>howToCall\<close> are numbers.
\<close>

theorem OrderJSON_numeric_property_types:
  assumes "conforms v (TRef ''OrderJSON'')"
  shows "list_all (has_string v)
           [''makerRelayerFee'', ''takerRelayerFee'', ''makerProtocolFee'',
            ''takerProtocolFee'', ''makerReferrerFee'', ''basePrice'', ''extra'', ''salt'',
            ''quantity'']
       \<and> list_all (has_number_or_string v) [''listingTime'', ''expirationTime'']
       \<and> list_all (has_number v) [''feeMethod'', ''side'', ''saleKind'', ''howToCall'']"
proof -
  note d = assms declared_OrderJSON
  have s: "has_string v k" if "req k TString \<in> set OrderJSON" for k
    using required_string [OF d that] .
  have n: "has_number v k" if "req k TNumber \<in> set OrderJSON" for k
    using required_number [OF d that] .
  have t: "has_number_or_string v k"
    if "req k (TUnion [TNumber, TString]) \<in> set OrderJSON" for k
    using required_number_or_string [OF d that] .
  show ?thesis
    by (auto intro!: s n t simp: OrderJSON_properties)
qed

theorem OrderJSON_numeric_property_types_witness:
  "conforms example_order_json (TRef ''OrderJSON'')
   \<and> list_all (has_string example_order_json)
        [''makerRelayerFee'', ''takerRelayerFee'', ''makerProtocolFee'',
         ''takerProtocolFee'', ''makerReferrerFee'', ''basePrice'', ''extra'', ''salt'',
         ''quantity'']
   \<and> list_all (has_number_or_string example_order_json) [''listingTime'', ''expirationTime'']
   \<and> list_all (has_number example_order_json)
        [''feeMethod'', ''side'', ''saleKind'', ''howToCall'']"
  using OrderJSON_numeric_property_types [OF example_order_json_conforms]
    example_order_json_conforms
  by simp

text \<open>
  Claim C1, as stated, fails: a value of type \<^verbatim>\<open>OrderJSON\<close> may carry \<^verbatim>\<open>side\<close> and
  \<^verbatim>\<open>listingTime\<close> as native numbers.
\<close>

theorem OrderJSON_native_numbers_counterexample:
  "conforms example_order_json (TRef ''OrderJSON'')
   \<and> property_of example_order_json ''side'' = Some (VNum 0)
   \<and> property_of example_order_json ''listingTime'' = Some (VNum 1600000000)
   \<and> \<not> has_string example_order_json ''side''
   \<and> \<not> has_string example_order_json ''listingTime''"
  by code_simp

subsection \<open>The order hierarchy\<close>

text \<open>
  Claim C2, as amended.  \<^verbatim>\<open>UnsignedOrder\<close> is \<^verbatim>\<open>UnhashedOrder\<close> with one more
  property, the optional \<^verbatim>\<open>hash\<close>.  \<^verbatim>\<open>Order\<close> is \<^verbatim>\<open>UnsignedOrder\<close> with the three
  properties of \<^verbatim>\<open>ECSignature\<close>, each optional on its own, and twelve more optional
  properties: \<^verbatim>\<open>createdTime\<close>, \<^verbatim>\<open>currentPrice\<close>, \<^verbatim>\<open>currentBounty\<close>,
  \<^verbatim>\<open>makerAccount\<close>, \<^verbatim>\<open>takerAccount\<close>, \<^verbatim>\<open>paymentTokenContract\<close>,
  \<^verbatim>\<open>feeRecipientAccount\<close>, \<^verbatim>\<open>cancelledOrFinalized\<close>, \<^verbatim>\<open>markedInvalid\<close>,
  \<^verbatim>\<open>asset\<close>, \<^verbatim>\<open>assetBundle\<close> and \<^verbatim>\<open>nonce\<close>.
\<close>

theorem Order_hierarchy:
  "UnsignedOrder = UnhashedOrder @ [opt ''hash'' TString]
   \<and> Order = UnsignedOrder
       @ [opt ''v'' TNumber, opt ''r'' TString, opt ''s'' TString]
       @ [opt ''createdTime'' TBigNumber,
          opt ''currentPrice'' TBigNumber,
          opt ''currentBounty'' TBigNumber,
          opt ''makerAccount'' (TRef ''OpenSeaAccount''),
          opt ''takerAccount'' (TRef ''OpenSeaAccount''),
          opt ''paymentTokenContract'' (TRef ''OpenSeaFungibleToken''),
          opt ''feeRecipientAccount'' (TRef ''OpenSeaAccount''),
          opt ''cancelledOrFinalized'' TBoolean,
          opt ''markedInvalid'' TBoolean,
          opt ''asset'' (TRef ''OpenSeaAsset''),
          opt ''assetBundle'' (TRef ''OpenSeaAssetBundle''),
          opt ''nonce'' TNumber]"
  by (simp add: Order_def UnsignedOrder_def UnhashedOrder_def extends_def Partial_def
      ECSignature_def keyof_def)

text \<open>
  Claim C2, as stated, fails: the signature need not be present or absent as a whole.
  An order with \<^verbatim>\<open>v\<close> and without \<^verbatim>\<open>r\<close> and \<^verbatim>\<open>s\<close> is of type \<^verbatim>\<open>Order\<close>.
\<close>

theorem Order_partial_signature_counterexample:
  "conforms example_order_v_only (TRef ''Order'')
   \<and> property_of example_order_v_only ''v'' = Some (VNum 27)
   \<and> property_of example_order_v_only ''r'' = None
   \<and> property_of example_order_v_only ''s'' = None"
  by code_simp

subsection \<open>The metadata of an order\<close>

text \<open>
  Claim C3, as amended.  The metadata of every value of type \<^verbatim>\<open>Order\<close> is present and
  satisfies at least one of the two variants of \<^verbatim>\<open>ExchangeMetadata\<close>: it is never
  neither.  The union has no tag, so nothing excludes a value that satisfies both.
\<close>

theorem Order_metadata_some_variant:
  assumes "conforms v (TRef ''Order'')"
  shows "\<exists>m. property_of v ''metadata'' = Some m
           \<and> (conforms m (TRef ''ExchangeMetadataForAsset'')
              \<or> conforms m (TRef ''ExchangeMetadataForBundle''))"
proof -
  have "req ''metadata'' ExchangeMetadata \<in> set Order"
    by (simp add: Order_def UnsignedOrder_def UnhashedOrder_def extends_def Partial_def
        ECSignature_def keyof_def)
  from conforms_required [OF assms declared_Order this]
  show ?thesis by (auto simp: ExchangeMetadata_def)
qed

theorem Order_metadata_some_variant_witness:
  "conforms example_order (TRef ''Order'')
   \<and> (\<exists>m. property_of example_order ''metadata'' = Some m
           \<and> (conforms m (TRef ''ExchangeMetadataForAsset'')
              \<or> conforms m (TRef ''ExchangeMetadataForBundle'')))"
  using Order_metadata_some_variant [OF example_order_conforms] example_order_conforms
  by blast

text \<open>
  Claim C3, as stated, fails: an order whose metadata carries \<^verbatim>\<open>asset\<close>, \<^verbatim>\<open>schema\<close>
  and \<^verbatim>\<open>bundle\<close> is of type \<^verbatim>\<open>Order\<close>, and that metadata populates both variants.
\<close>

theorem Order_metadata_both_variants_counterexample:
  "conforms example_order_both (TRef ''Order'')
   \<and> property_of example_order_both ''metadata'' = Some example_both_metadata
   \<and> conforms example_both_metadata (TRef ''ExchangeMetadataForAsset'')
   \<and> conforms example_both_metadata (TRef ''ExchangeMetadataForBundle'')"
  by code_simp

subsection \<open>Round trip of the numeric fields\<close>

text \<open>
  Claim C4.  Serializing an \<^verbatim>\<open>UnhashedOrder\<close> to \<^verbatim>\<open>OrderJSON\<close> writes every numeric
  field as a string, and deserializing the result succeeds and gives an order whose
  \<^verbatim>\<open>makerRelayerFee\<close>, \<^verbatim>\<open>takerRelayerFee\<close>, \<^verbatim>\<open>makerProtocolFee\<close>,
  \<^verbatim>\<open>takerProtocolFee\<close>, \<^verbatim>\<open>makerReferrerFee\<close>, \<^verbatim>\<open>basePrice\<close>, \<^verbatim>\<open>extra\<close>,
  \<^verbatim>\<open>listingTime\<close>, \<^verbatim>\<open>expirationTime\<close>, \<^verbatim>\<open>salt\<close> and \<^verbatim>\<open>quantity\<close> equal the
  original's, whatever their size.  The converters are the ones modelled from the spec.
\<close>

theorem UnhashedOrder_numeric_round_trip:
  "list_all (has_string (orderToJSON ord))
     [''makerRelayerFee'', ''takerRelayerFee'', ''makerProtocolFee'', ''takerProtocolFee'',
      ''makerReferrerFee'', ''basePrice'', ''extra'', ''listingTime'', ''expirationTime'',
      ''salt'', ''quantity'']
   \<and> (\<exists>ord'. orderFromJSON (orderToJSON ord) w = Some ord'
        \<and> makerRelayerFee ord' = makerRelayerFee ord
        \<and> takerRelayerFee ord' = takerRelayerFee ord
        \<and> makerProtocolFee ord' = makerProtocolFee ord
        \<and> takerProtocolFee ord' = takerProtocolFee ord
        \<and> makerReferrerFee ord' = makerReferrerFee ord
        \<and> basePrice ord' = basePrice ord
        \<and> extra ord' = extra ord
        \<and> listingTime ord' = listingTime ord
        \<and> expirationTime ord' = expirationTime ord
        \<and> salt ord' = salt ord
        \<and> quantity ord' = quantity ord)"
  using orderToJSON_strings [of ord] by (simp add: orderFromJSON_orderToJSON)

subsection \<open>The argument tuple of the atomic match\<close>

text \<open>
  Claim C5, as amended.  A value is of type \<^verbatim>\<open>WyvernAtomicMatchParameters\<close> exactly
  when it is an array of eleven slots in this order: an array of strings, an array of
  \<^verbatim>\<open>BigNumber\<close>, an array of numbers or \<^verbatim>\<open>BigNumber\<close>, six strings, an array of
  numbers or \<^verbatim>\<open>BigNumber\<close>, and an array of strings.
\<close>

theorem WyvernAtomicMatchParameters_slots:
  "conforms v WyvernAtomicMatchParameters \<longleftrightarrow>
     (\<exists>a b c d e f g h i j k. v = VArr [a, b, c, d, e, f, g, h, i, j, k]
        \<and> conforms a (TArray TString)
        \<and> conforms b (TArray TBigNumber)
        \<and> conforms c (TArray (TUnion [TNumber, TBigNumber]))
        \<and> conforms d TString \<and> conforms e TString \<and> conforms f TString
        \<and> conforms g TString \<and> conforms h TString \<and> conforms i TString
        \<and> conforms j (TArray (TUnion [TNumber, TBigNumber]))
        \<and> conforms k (TArray TString))"
proof (cases v)
  case (VArr xs)
  show ?thesis
    unfolding VArr WyvernAtomicMatchParameters_def
    by (auto simp: length_Suc_conv eval_nat_numeral)
qed (simp_all add: WyvernAtomicMatchParameters_def)

text \<open>
  Claim C5, as stated, fails: it lists five strings between the arrays, which makes ten
  slots.  Arguments laid out that way are rejected; with six strings they are accepted.
\<close>

theorem WyvernAtomicMatchParameters_five_strings_counterexample:
  "conforms example_atomic_match_arguments WyvernAtomicMatchParameters
   \<and> \<not> conforms example_five_string_arguments WyvernAtomicMatchParameters"
  by code_simp

subsection \<open>The two sequences of a bundle\<close>




subsection \<open>The arguments of a Web3 callback\<close>

text \<open>
  Claim C8, as amended.  A call of a \<^verbatim>\<open>Web3Callback<T>\<close> handler passes first an
  error, which is \<^verbatim>\<open>null\<close> or an \<^verbatim>\<open>Error\<close>, and then a result of type \<^verbatim>\<open>T\<close>.
  The result may be left out only when \<^verbatim>\<open>T\<close> is \<^verbatim>\<open>void\<close> or a union with a member
  \<^verbatim>\<open>void\<close>.  Nothing excludes a result of type \<^verbatim>\<open>T\<close> beside an error that is not
  \<^verbatim>\<open>null\<close>.
\<close>

theorem Web3Callback_arguments:
  "accepts (Web3Callback T) args \<longleftrightarrow>
     (\<exists>e. (e = VNull \<or> conforms e (TRef ''Error''))
        \<and> ((\<exists>r. args = [e, r] \<and> conforms r T) \<or> (args = [e] \<and> accepts_void T)))"
proof (cases args)
  case Nil
  then show ?thesis by (simp add: Web3Callback_def)
next
  case (Cons e rest)
  note args = this
  show ?thesis
  proof (cases rest)
    case Nil
    with args show ?thesis
      by (simp add: Web3Callback_def conforms_Error_or_null del: conforms.simps)
  next
    case (Cons r rest')
    with args show ?thesis
      by (cases rest') (simp_all add: Web3Callback_def conforms_Error_or_null del: conforms.simps)
  qed
qed

text \<open>
  Claim C8, as stated, fails: a handler for a string result may be called with an error
  and a string at once, and may not be called with an error alone.
\<close>

theorem Web3Callback_error_with_result_counterexample:
  "accepts (Web3Callback TString) [example_error, VStr ''0xabc'']
   \<and> \<not> accepts (Web3Callback TString) [example_error]
   \<and> \<not> accepts (Web3Callback TString) [example_error, VUndefined]"
  by code_simp

text \<open>
  For \<^verbatim>\<open>Web3Callback<void>\<close> the result may be left out, after an error as well as
  after \<^verbatim>\<open>null\<close>; for \<^verbatim>\<open>any\<close> and \<^verbatim>\<open>undefined\<close> it may not.
\<close>

lemma Web3Callback_void_result_may_be_left_out:
  "accepts (Web3Callback TVoid) [example_error]
   \<and> accepts (Web3Callback TVoid) [VNull]
   \<and> accepts (Web3Callback TVoid) [VNull, VUndefined]
   \<and> accepts (Web3Callback (TUnion [TString, TVoid])) [example_error]
   \<and> \<not> accepts (Web3Callback TVoid) []
   \<and> \<not> accepts (Web3Callback TAny) [VNull]
   \<and> \<not> accepts (Web3Callback TUndefined) [VNull]"
  by code_simp

subsection \<open>The raw order is the JSON order without nine keys\<close>

text \<open>
  Claim C9.  \<^verbatim>\<open>RawWyvernOrderJSON\<close> has exactly the properties of \<^verbatim>\<open>OrderJSON\<close>
  whose name is not one of \<^verbatim>\<open>makerReferrerFee\<close>, \<^verbatim>\<open>quantity\<close>,
  \<^verbatim>\<open>englishAuctionReservePrice\<close>, \<^verbatim>\<open>createdTime\<close>, \<^verbatim>\<open>metadata\<close>, \<^verbatim>\<open>hash\<close>,
  \<^verbatim>\<open>v\<close>, \<^verbatim>\<open>r\<close>, \<^verbatim>\<open>s\<close>.  Each property that remains is the very property of
  \<^verbatim>\<open>OrderJSON\<close>: same name, same optionality, same type.  \<^verbatim>\<open>OrderJSON\<close> has no
  property \<^verbatim>\<open>hash\<close>, so omitting it removes nothing.  Twenty-four properties remain.
\<close>

theorem RawWyvernOrderJSON_is_OrderJSON_minus_omitted:
  "RawWyvernOrderJSON =
     filter (\<lambda>p. pname p \<notin> set [''makerReferrerFee'', ''quantity'',
                  ''englishAuctionReservePrice'', ''createdTime'', ''metadata'', ''hash'',
                  ''v'', ''r'', ''s'']) OrderJSON
   \<and> ''hash'' \<notin> set (keyof OrderJSON)
   \<and> keyof RawWyvernOrderJSON =
       [''exchange'', ''maker'', ''taker'', ''makerRelayerFee'', ''takerRelayerFee'',
        ''makerProtocolFee'', ''takerProtocolFee'', ''feeRecipient'', ''feeMethod'',
        ''side'', ''saleKind'', ''target'', ''howToCall'', ''calldata'',
        ''replacementPattern'', ''staticTarget'', ''staticExtradata'', ''paymentToken'',
        ''basePrice'', ''extra'', ''listingTime'', ''expirationTime'', ''salt'', ''nonce'']"
  by (simp add: RawWyvernOrderJSON_def Omit_filter OrderJSON_properties keyof_def)

subsection \<open>The reserve price key\<close>

text \<open>
  Claim C10.  In \<^verbatim>\<open>OrderJSON\<close> the property \<^verbatim>\<open>englishAuctionReservePrice\<close> is
  required and of type \<^verbatim>\<open>string | undefined\<close>; in \<^verbatim>\<open>UnhashedOrder\<close> it is an
  optional \<^verbatim>\<open>BigNumber\<close>.  So every value of type \<^verbatim>\<open>OrderJSON\<close> has the key, bound
  to \<^verbatim>\<open>undefined\<close> or to a string.
\<close>

theorem OrderJSON_reserve_price_key:
  "req ''englishAuctionReservePrice'' (TUnion [TString, TUndefined]) \<in> set OrderJSON
   \<and> opt ''englishAuctionReservePrice'' TBigNumber \<in> set UnhashedOrder
   \<and> (conforms v (TRef ''OrderJSON'') \<longrightarrow>
        (\<exists>x. property_of v ''englishAuctionReservePrice'' = Some x
           \<and> (x = VUndefined \<or> (\<exists>s. x = VStr s))))"
proof -
  have j: "req ''englishAuctionReservePrice'' (TUnion [TString, TUndefined]) \<in> set OrderJSON"
    by (simp add: OrderJSON_properties)
  have u: "opt ''englishAuctionReservePrice'' TBigNumber \<in> set UnhashedOrder"
    by (simp add: UnhashedOrder_def)
  have "\<exists>x. property_of v ''englishAuctionReservePrice'' = Some x
           \<and> (x = VUndefined \<or> (\<exists>s. x = VStr s))"
    if "conforms v (TRef ''OrderJSON'')"
  proof -
    from conforms_required [OF that declared_OrderJSON j]
    obtain x where x: "property_of v ''englishAuctionReservePrice'' = Some x"
      and c: "conforms x (TUnion [TString, TUndefined])" by blast
    from c have "x = VUndefined \<or> (\<exists>s. x = VStr s)" by (cases x) simp_all
    with x show ?thesis by blast
  qed
  with j u show ?thesis by blast
qed

theorem OrderJSON_reserve_price_key_witness:
  "conforms example_order_json (TRef ''OrderJSON'')
   \<and> property_of example_order_json ''englishAuctionReservePrice'' = Some VUndefined"
  using OrderJSON_reserve_price_key [of example_order_json] example_order_json_conforms
  by (simp add: example_order_json_def)

text \<open>
  The contrast: a value of type \<^verbatim>\<open>UnhashedOrder\<close> may leave the key out, and a value
  without the key is not of type \<^verbatim>\<open>OrderJSON\<close>.
\<close>

lemma UnhashedOrder_may_omit_reserve_price:
  "conforms example_order (TRef ''UnhashedOrder'')
   \<and> property_of example_order ''englishAuctionReservePrice'' = None
   \<and> \<not> conforms example_order (TRef ''OrderJSON'')"
  by code_simp

end
